theory Spec2Isabelle
  imports Main
begin

section \<open>Rules and tags (types/rule.ts, types/tag.ts)\<close>

text \<open>
  The TypeScript interfaces become records and the literal unions become datatypes.
  Record fields keep the source's names; the fields of the nested interfaces carry a
  short prefix (\<open>ap_\<close>, \<open>gp_\<close>, \<open>rt_\<close>, \<open>rm_\<close>, ...) because several interfaces
  share names such as \<open>description\<close> and \<open>source\<close>. A TypeScript \<open>number\<close> is an
  \<open>int\<close>: every number of this program is a count or a millisecond timestamp.
  An optional or nullable field is an \<open>option\<close>; a \<open>Record<string, T>\<close> is a map.
  The field \<open>keywords\<close> of a rule is \<open>keywordList\<close> here (\<open>keywords\<close> is reserved).
\<close>

datatype RuleCategory =
    resource_management | security | exception_handling | performance | architecture
  | code_style | naming_convention | documentation | general

datatype RuleSeverity = CRITICAL | HIGH | MEDIUM | LOW

datatype RuleCheckType = pure_regex | llm_with_regex | llm_contextual | llm_with_ast

record AntiPattern =
  ap_pattern :: string
  ap_flags :: string
  ap_description :: string

record GoodPattern =
  gp_pattern :: string
  gp_flags :: string
  gp_description :: string

datatype RuleTableType = textbox | table

record RuleTable =
  rt_type :: RuleTableType
  rt_content :: string
  rt_markdown :: string
  rt_rows :: int
  rt_cols :: int

record RuleMetadata =
  rm_createdAt :: string
  rm_source :: string
  rm_sourceFile :: string
  rm_version :: string

record Rule =
  ruleId :: string
  sectionNumber :: string
  title :: string
  level :: int
  category :: RuleCategory
  severity :: RuleSeverity
  description :: string
  message :: string
  suggestion :: string
  keywordList :: "string list"
  source :: string
  sourceFile :: string
  sourcePrefix :: string
  problematicCode :: "string option"
  fixedCode :: "string option"
  hasTables :: bool
  hasImages :: bool
  tables :: "RuleTable list"
  metadata :: RuleMetadata
  checkType :: RuleCheckType
  checkTypeReason :: string
  tagCondition :: string
  requiredTags :: "string list"
  excludeTags :: "string list"
  antiPatterns :: "AntiPattern list"
  goodPatterns :: "GoodPattern list"
  isActive :: bool

text \<open>
  \<open>Partial<Rule>\<close>, the type of the \<open>updates\<close> argument of \<open>updateRule\<close>: every
  field of \<open>Rule\<close> is optional, \<open>ruleId\<close> included. \<open>None\<close> is a property the object
  does not have.
\<close>

record PartialRule =
  p_ruleId :: "string option"
  p_sectionNumber :: "string option"
  p_title :: "string option"
  p_level :: "int option"
  p_category :: "RuleCategory option"
  p_severity :: "RuleSeverity option"
  p_description :: "string option"
  p_message :: "string option"
  p_suggestion :: "string option"
  p_keywords :: "string list option"
  p_source :: "string option"
  p_sourceFile :: "string option"
  p_sourcePrefix :: "string option"
  p_problematicCode :: "string option option"
  p_fixedCode :: "string option option"
  p_hasTables :: "bool option"
  p_hasImages :: "bool option"
  p_tables :: "RuleTable list option"
  p_metadata :: "RuleMetadata option"
  p_checkType :: "RuleCheckType option"
  p_checkTypeReason :: "string option"
  p_tagCondition :: "string option"
  p_requiredTags :: "string list option"
  p_excludeTags :: "string list option"
  p_antiPatterns :: "AntiPattern list option"
  p_goodPatterns :: "GoodPattern list option"
  p_isActive :: "bool option"

text \<open>The empty object \<open>{}\<close> as a \<open>Partial<Rule>\<close>.\<close>

definition empty_updates :: PartialRule where
  "empty_updates =
     \<lparr>p_ruleId = None, p_sectionNumber = None, p_title = None, p_level = None,
      p_category = None, p_severity = None, p_description = None, p_message = None,
      p_suggestion = None, p_keywords = None, p_source = None, p_sourceFile = None,
      p_sourcePrefix = None, p_problematicCode = None, p_fixedCode = None,
      p_hasTables = None, p_hasImages = None, p_tables = None, p_metadata = None,
      p_checkType = None, p_checkTypeReason = None, p_tagCondition = None,
      p_requiredTags = None, p_excludeTags = None, p_antiPatterns = None,
      p_goodPatterns = None, p_isActive = None\<rparr>"

text \<open>One property of an object spread: the later object's value when it has the property.\<close>

definition spread_field :: "'a \<Rightarrow> 'a option \<Rightarrow> 'a" where
  "spread_field old new = (case new of None \<Rightarrow> old | Some v \<Rightarrow> v)"

text \<open>The object spread \<open>{ ...r, ...updates }\<close> of \<open>updateRule\<close>.\<close>

definition spread_rule :: "Rule \<Rightarrow> PartialRule \<Rightarrow> Rule" where
  "spread_rule r updates =
     \<lparr>ruleId = spread_field (ruleId r) (p_ruleId updates),
      sectionNumber = spread_field (sectionNumber r) (p_sectionNumber updates),
      title = spread_field (title r) (p_title updates),
      level = spread_field (level r) (p_level updates),
      category = spread_field (category r) (p_category updates),
      severity = spread_field (severity r) (p_severity updates),
      description = spread_field (description r) (p_description updates),
      message = spread_field (message r) (p_message updates),
      suggestion = spread_field (suggestion r) (p_suggestion updates),
      keywordList = spread_field (keywordList r) (p_keywords updates),
      source = spread_field (source r) (p_source updates),
      sourceFile = spread_field (sourceFile r) (p_sourceFile updates),
      sourcePrefix = spread_field (sourcePrefix r) (p_sourcePrefix updates),
      problematicCode = spread_field (problematicCode r) (p_problematicCode updates),
      fixedCode = spread_field (fixedCode r) (p_fixedCode updates),
      hasTables = spread_field (hasTables r) (p_hasTables updates),
      hasImages = spread_field (hasImages r) (p_hasImages updates),
      tables = spread_field (tables r) (p_tables updates),
      metadata = spread_field (metadata r) (p_metadata updates),
      checkType = spread_field (checkType r) (p_checkType updates),
      checkTypeReason = spread_field (checkTypeReason r) (p_checkTypeReason updates),
      tagCondition = spread_field (tagCondition r) (p_tagCondition updates),
      requiredTags = spread_field (requiredTags r) (p_requiredTags updates),
      excludeTags = spread_field (excludeTags r) (p_excludeTags updates),
      antiPatterns = spread_field (antiPatterns r) (p_antiPatterns updates),
      goodPatterns = spread_field (goodPatterns r) (p_goodPatterns updates),
      isActive = spread_field (isActive r) (p_isActive updates)\<rparr>"

datatype TagExtractionMethod = extraction_regex | extraction_ast | extraction_llm

datatype TagTier = Tier1 | Tier2

datatype TagMatchType = match_any | match_all | match_none

datatype AstOperator = op_ge | op_gt | op_le | op_lt | op_eq

text \<open>
  \<open>TagDetection\<close> is a union discriminated by its \<open>type\<close> property; the constructor
  is the discriminator and its arguments are the interface's fields in the source's order.
\<close>

datatype TagDetection =
    RegexDetection "string list" TagMatchType "bool option" "bool option"
  | AstDetection "string option" "string option" "int option" "AstOperator option"
      "string option"
  | AstContextDetection "string + string list" "string list"
  | LlmDetection string "string list option"

record TagDefinition =
  tg_category :: string
  tg_description :: string
  tg_extractionMethod :: TagExtractionMethod
  tg_tier :: TagTier
  tg_detection :: TagDetection
  tg_notes :: "string option"

record CompoundTag =
  ct_name :: "string option"
  ct_description :: string
  ct_expression :: "string option"
  ct_requires :: "string list option"
  ct_excludes :: "string list option"
  ct_severity :: "string option"

record TagDataMetadata =
  tm_version :: string
  tm_description :: "string option"
  tm_lastUpdated :: string
  tm_totalTags :: int

record TagData =
  td_metadata :: TagDataMetadata
  td_tagCategories :: "string \<rightharpoonup> string"
  td_tags :: "string \<rightharpoonup> TagDefinition"
  td_compoundTags :: "string \<rightharpoonup> CompoundTag"

text \<open>
  \<open>EMPTY_TAG_DATA\<close> reads the clock once, when the module is loaded
  (\<open>new Date().toISOString()\<close>): the reading is the argument.
\<close>

definition EMPTY_TAG_DATA :: "string \<Rightarrow> TagData" where
  "EMPTY_TAG_DATA loadedAt =
     \<lparr>td_metadata = \<lparr>tm_version = ''1.0.0'', tm_description = Some '''',
                      tm_lastUpdated = loadedAt, tm_totalTags = 0\<rparr>,
      td_tagCategories = Map.empty, td_tags = Map.empty, td_compoundTags = Map.empty\<rparr>"

section \<open>The remote contract (types/api.ts)\<close>

datatype ApiErrorCode = INVALID_DATA | VERSION_CONFLICT | NOT_FOUND | INTERNAL_ERROR

text \<open>\<open>ApiErrorResponse\<close>; its \<open>success\<close> property is the constant \<open>false\<close>.\<close>

record ApiErrorResponse =
  ae_error :: ApiErrorCode
  ae_message :: string

record RulesWrapper =
  rw_count :: int
  rw_items :: "Rule list"

record PullMetadata =
  pm_ruleCount :: int
  pm_tagCount :: int
  pm_compoundTagCount :: int

record PullResponse =
  pr_version :: int
  pr_pulledAt :: string
  pr_rules :: RulesWrapper
  pr_tags :: TagData
  pr_metadata :: PullMetadata

record PushRequest =
  rq_baseVersion :: "int option"
  rq_rules :: "Rule list"
  rq_tags :: TagData
  rq_force :: bool

record PushRuleCounts =
  pc_total :: int
  pc_success :: int
  pc_failed :: int

text \<open>\<open>PushSuccessResponse\<close> (\<open>success: true\<close>); \<open>tags: { total }\<close> is \<open>ps_tagsTotal\<close>.\<close>

record PushSuccessResponse =
  ps_newVersion :: int
  ps_pushedAt :: string
  ps_backupPath :: string
  ps_rules :: PushRuleCounts
  ps_tagsTotal :: int

text \<open>\<open>PushConflictResponse\<close> (\<open>success: false, error: 'VERSION_CONFLICT'\<close>).\<close>

record PushConflictResponse =
  cf_message :: string
  cf_baseVersion :: int
  cf_currentVersion :: int

datatype PushResponse = PushSuccess PushSuccessResponse | PushConflict PushConflictResponse

fun isPushConflict :: "PushResponse \<Rightarrow> bool" where
  "isPushConflict (PushConflict c) = True"
| "isPushConflict (PushSuccess s) = False"

fun isPushSuccess :: "PushResponse \<Rightarrow> bool" where
  "isPushSuccess (PushSuccess s) = True"
| "isPushSuccess (PushConflict c) = False"

record LocalSnapshot =
  snap_savedAt :: string
  snap_baseVersion :: int
  snap_rules :: "Rule list"
  snap_tags :: TagData

section \<open>The HTTP client (api/client.ts) and the data endpoints (api/dataApi.ts)\<close>

text \<open>
  What the transport does is the input of the model. A request either is answered with a
  2xx response, whose body is of the type \<open>'a\<close>, or fails with an \<open>AxiosError\<close>: the
  error has a message and, when the server answered at all, the response with its status
  and its body, of the type \<open>'e\<close>. For a pull the two types are the ones the source
  names (\<open>client.get<PullResponse>\<close>, \<open>AxiosError<ApiErrorResponse>\<close>).
  The source reads the error with optional chaining throughout
  (\<open>error.response?.data?.message\<close>), so the response and its body are options.
\<close>

record 'e ErrorResponse =
  er_status :: nat
  er_data :: "'e option"

record 'e AxiosError =
  ax_message :: "string option"
  ax_response :: "'e ErrorResponse option"

datatype ('a, 'e) Transport = Fulfilled 'a | Rejected "'e AxiosError"

text \<open>The error the response interceptor rejects with: an \<open>Error\<close> with three more properties.\<close>

record 'e NormalizedError =
  ne_message :: string
  ne_status :: "nat option"
  ne_code :: "ApiErrorCode option"
  ne_originalError :: "'e AxiosError"

text \<open>
  The fixed messages of the source are Korean sentences; they are written in English here.
\<close>

definition MSG_409 :: string where "MSG_409 = ''A version conflict occurred.''"
definition MSG_400 :: string where "MSG_400 = ''Bad request.''"
definition MSG_404 :: string where "MSG_404 = ''The requested resource was not found.''"
definition MSG_500 :: string where "MSG_500 = ''Internal server error.''"
definition MSG_UNKNOWN :: string where "MSG_UNKNOWN = ''An unknown error occurred.''"
definition MSG_PULL_UNKNOWN :: string where
  "MSG_PULL_UNKNOWN = ''An unknown error occurred during pull.''"

text \<open>
  The rejection handler of \<open>client.interceptors.response\<close>. The body of an error is read
  through its \<open>message\<close> and \<open>error\<close> properties only; \<open>msg\<close> and \<open>code\<close> are these two
  reads for the body type at hand (\<open>None\<close> for a body without the property).
\<close>

definition normalize ::
  "('e \<Rightarrow> string option) \<Rightarrow> ('e \<Rightarrow> ApiErrorCode option) \<Rightarrow> 'e AxiosError \<Rightarrow> 'e NormalizedError"
where
  "normalize msg code err =
     (let status = map_option er_status (ax_response err);
          body = Option.bind (ax_response err) er_data;
          serverMessage = Option.bind body msg;
          message =
            (case serverMessage of
               Some m \<Rightarrow> m
             | None \<Rightarrow>
                 if status = Some 409 then MSG_409
                 else if status = Some 400 then MSG_400
                 else if status = Some 404 then MSG_404
                 else if status = Some 500 then MSG_500
                 else (case ax_message err of Some m \<Rightarrow> m | None \<Rightarrow> MSG_UNKNOWN))
      in \<lparr>ne_message = message, ne_status = status, ne_code = Option.bind body code,
          ne_originalError = err\<rparr>)"

text \<open>
  A request through the client: the response interceptor returns a 2xx response as it is
  and rejects with the normalized error otherwise. The result is \<open>response.data\<close>.
\<close>

definition client_request ::
  "('e \<Rightarrow> string option) \<Rightarrow> ('e \<Rightarrow> ApiErrorCode option) \<Rightarrow> ('a, 'e) Transport
     \<Rightarrow> 'e NormalizedError + 'a"
where
  "client_request msg code t =
     (case t of Fulfilled d \<Rightarrow> Inr d | Rejected err \<Rightarrow> Inl (normalize msg code err))"

text \<open>\<open>pullData\<close>: \<open>GET /api/data/pull\<close>; an error body is an \<open>ApiErrorResponse\<close>.\<close>

definition pullData ::
  "(PullResponse, ApiErrorResponse) Transport \<Rightarrow> ApiErrorResponse NormalizedError + PullResponse"
where
  "pullData t = client_request (\<lambda>b. Some (ae_message b)) (\<lambda>b. Some (ae_error b)) t"

text \<open>
  The body of a reply to a push is not typed at run time: \<open>pushData\<close> casts whatever the
  reply carries to \<open>PushResponse\<close> (\<open>client.post<PushResponse>\<close>, and
  \<open>originalError?: { response?: { data?: PushResponse } }\<close> in the \<open>catch\<close>). A body is
  \<open>null\<close>, a boolean, a number, a string (the empty string for an empty body), or an
  object: a \<open>PushResponse\<close>, an \<open>ApiErrorResponse\<close>, or some other object or array, of
  which only the \<open>message\<close> it may have is kept. A reply whose \<open>data\<close> is \<open>undefined\<close>
  has no body (\<open>None\<close>).
\<close>

datatype Body =
    JsonNull
  | JsonBoolean bool
  | JsonNumber int
  | JsonString string
  | ResponseObject PushResponse
  | ErrorObject ApiErrorResponse
  | OtherObject "string option"

text \<open>The value of a body as a condition: every object counts as true.\<close>

fun truthy :: "Body \<Rightarrow> bool" where
  "truthy JsonNull = False"
| "truthy (JsonBoolean b) = b"
| "truthy (JsonNumber n) = (n \<noteq> 0)"
| "truthy (JsonString s) = (s \<noteq> [])"
| "truthy (ResponseObject r) = True"
| "truthy (ErrorObject b) = True"
| "truthy (OtherObject m) = True"

text \<open>
  The interceptor's reads \<open>data?.message\<close> and \<open>data?.error\<close> on such a body: \<open>null\<close>
  and the primitive values have neither property, and a success body has neither.
\<close>

fun push_body_message :: "Body \<Rightarrow> string option" where
  "push_body_message (ResponseObject (PushConflict c)) = Some (cf_message c)"
| "push_body_message (ResponseObject (PushSuccess s)) = None"
| "push_body_message (ErrorObject b) = Some (ae_message b)"
| "push_body_message (OtherObject m) = m"
| "push_body_message JsonNull = None"
| "push_body_message (JsonBoolean b) = None"
| "push_body_message (JsonNumber n) = None"
| "push_body_message (JsonString s) = None"

fun push_body_error :: "Body \<Rightarrow> ApiErrorCode option" where
  "push_body_error (ResponseObject (PushConflict c)) = Some VERSION_CONFLICT"
| "push_body_error (ResponseObject (PushSuccess s)) = None"
| "push_body_error (ErrorObject b) = Some (ae_error b)"
| "push_body_error (OtherObject m) = None"
| "push_body_error JsonNull = None"
| "push_body_error (JsonBoolean b) = None"
| "push_body_error (JsonNumber n) = None"
| "push_body_error (JsonString s) = None"

text \<open>
  \<open>pushData\<close>: \<open>POST /api/data/push\<close>. A 2xx reply gives \<open>response.data\<close>. In the
  \<open>catch\<close>, the condition is \<open>err.status === 409 && err.originalError?.response?.data\<close>:
  an error of status 409 whose original response has a body that counts as true returns
  that body; every other error is thrown again. The payload is sent and not read otherwise.
\<close>

definition pushData ::
  "PushRequest \<Rightarrow> (Body, Body) Transport \<Rightarrow> Body NormalizedError + Body"
where
  "pushData payload t =
     (case client_request push_body_message push_body_error t of
        Inr d \<Rightarrow> Inr d
      | Inl err \<Rightarrow>
          if ne_status err = Some 409 then
            (case Option.bind (ax_response (ne_originalError err)) er_data of
               Some d \<Rightarrow> if truthy d then Inr d else Inl err
             | None \<Rightarrow> Inl err)
          else Inl err)"

section \<open>The persistent local store (storage/idbStorage.ts)\<close>

text \<open>
  The database has two object stores: \<open>snapshots\<close>, keyed by the three snapshot slots,
  and \<open>meta\<close>, keyed by the three metadata slots with values of type \<open>string | number\<close>.
  A \<open>put\<close> replaces the value under its key.
\<close>

datatype SnapshotSlot = snapshot_origin | snapshot_current | snapshot_lastPush

datatype MetaSlot = meta_lastPullAt | meta_lastPushAt | meta_baseVersion

datatype MetaValue = MetaString string | MetaNumber int

record Idb =
  snapshots :: "SnapshotSlot \<rightharpoonup> LocalSnapshot"
  meta :: "MetaSlot \<rightharpoonup> MetaValue"

text \<open>
  Opening the database and each request on it can fail (storage unavailable, quota
  exceeded). What is thrown is an \<open>Error\<close> with a message, or some other value. Whether a
  request fails is decided by the surroundings of a call, together with the clock it
  reads: \<open>storage_fault\<close> gives the value thrown for a request, or \<open>None\<close> when the
  request goes through. A failed request leaves the database as it was.
\<close>

datatype IdbError = StorageError string | NonError

datatype IdbRequest =
    PutSnapshot SnapshotSlot | GetSnapshot SnapshotSlot
  | PutMeta MetaSlot | GetMeta MetaSlot | ClearStores

record Env =
  now :: string
  storage_fault :: "IdbRequest \<Rightarrow> IdbError option"

text \<open>\<open>saveSnapshot\<close>: the error is logged and thrown again.\<close>

definition saveSnapshot ::
  "Env \<Rightarrow> SnapshotSlot \<Rightarrow> LocalSnapshot \<Rightarrow> Idb \<Rightarrow> (IdbError + unit) \<times> Idb"
where
  "saveSnapshot env slot snapshot db =
     (case storage_fault env (PutSnapshot slot) of
        Some e \<Rightarrow> (Inl e, db)
      | None \<Rightarrow> (Inr (), db\<lparr>snapshots := (snapshots db)(slot \<mapsto> snapshot)\<rparr>))"

text \<open>\<open>loadSnapshot\<close>: \<open>value ?? null\<close>, and \<open>null\<close> when the read fails.\<close>

definition loadSnapshot :: "Env \<Rightarrow> SnapshotSlot \<Rightarrow> Idb \<Rightarrow> LocalSnapshot option" where
  "loadSnapshot env slot db =
     (case storage_fault env (GetSnapshot slot) of
        Some e \<Rightarrow> None
      | None \<Rightarrow> snapshots db slot)"

definition saveMeta :: "Env \<Rightarrow> MetaSlot \<Rightarrow> MetaValue \<Rightarrow> Idb \<Rightarrow> (IdbError + unit) \<times> Idb" where
  "saveMeta env slot v db =
     (case storage_fault env (PutMeta slot) of
        Some e \<Rightarrow> (Inl e, db)
      | None \<Rightarrow> (Inr (), db\<lparr>meta := (meta db)(slot \<mapsto> v)\<rparr>))"

definition loadMeta :: "Env \<Rightarrow> MetaSlot \<Rightarrow> Idb \<Rightarrow> MetaValue option" where
  "loadMeta env slot db =
     (case storage_fault env (GetMeta slot) of
        Some e \<Rightarrow> None
      | None \<Rightarrow> meta db slot)"

text \<open>
  \<open>loadMeta\<close> casts what it read to the type of its slot (\<open>value as MetaValueMap[K]\<close>).
  \<open>saveMeta\<close> is typed by the same map, so an entry it wrote has the type of its slot;
  an entry of the other type is read as absent here.
\<close>

definition as_string :: "MetaValue option \<Rightarrow> string option" where
  "as_string v = (case v of Some (MetaString s) \<Rightarrow> Some s | _ \<Rightarrow> None)"

definition as_number :: "MetaValue option \<Rightarrow> int option" where
  "as_number v = (case v of Some (MetaNumber n) \<Rightarrow> Some n | _ \<Rightarrow> None)"

text \<open>\<open>clearAll\<close>: one transaction clears both object stores.\<close>

definition clearAll :: "Env \<Rightarrow> Idb \<Rightarrow> (IdbError + unit) \<times> Idb" where
  "clearAll env db =
     (case storage_fault env ClearStores of
        Some e \<Rightarrow> (Inl e, db)
      | None \<Rightarrow> (Inr (), \<lparr>snapshots = Map.empty, meta = Map.empty\<rparr>))"

text \<open>
  \<open>Promise.all\<close> over writes that have all been started: every write takes place, and
  the promise rejects when one of them does. The writes of one call are on four different
  keys, so the order in which they land does not matter for the database. When several
  fail, the error of the first in program order is the one reported here.
\<close>

fun promise_all :: "(IdbError + unit) list \<Rightarrow> IdbError + unit" where
  "promise_all [] = Inr ()"
| "promise_all (Inl e # rs) = Inl e"
| "promise_all (Inr u # rs) = promise_all rs"

definition saveAfterPull :: "Env \<Rightarrow> LocalSnapshot \<Rightarrow> Idb \<Rightarrow> (IdbError + unit) \<times> Idb" where
  "saveAfterPull env snapshot db =
     (let (r1, db1) = saveSnapshot env snapshot_origin snapshot db;
          (r2, db2) = saveSnapshot env snapshot_current snapshot db1;
          (r3, db3) = saveMeta env meta_lastPullAt (MetaString (snap_savedAt snapshot)) db2;
          (r4, db4) = saveMeta env meta_baseVersion (MetaNumber (snap_baseVersion snapshot)) db3
      in (promise_all [r1, r2, r3, r4], db4))"

definition saveAfterPush ::
  "Env \<Rightarrow> LocalSnapshot \<Rightarrow> string \<Rightarrow> int \<Rightarrow> Idb \<Rightarrow> (IdbError + unit) \<times> Idb"
where
  "saveAfterPush env snapshot pushedAt newVersion db =
     (let updatedSnapshot = snapshot\<lparr>snap_baseVersion := newVersion, snap_savedAt := pushedAt\<rparr>;
          (r1, db1) = saveSnapshot env snapshot_lastPush updatedSnapshot db;
          (r2, db2) = saveSnapshot env snapshot_current updatedSnapshot db1;
          (r3, db3) = saveMeta env meta_lastPushAt (MetaString pushedAt) db2;
          (r4, db4) = saveMeta env meta_baseVersion (MetaNumber newVersion) db3
      in (promise_all [r1, r2, r3, r4], db4))"

section \<open>The data store (stores/dataStore.ts)\<close>

record DataState =
  rules :: "Rule list"
  tags :: TagData
  baseVersion :: "int option"
  lastPullAt :: "string option"
  lastPushAt :: "string option"
  isLoading :: bool
  isHydrated :: bool
  error :: "string option"

definition initialState :: "string \<Rightarrow> DataState" where
  "initialState loadedAt =
     \<lparr>rules = [], tags = EMPTY_TAG_DATA loadedAt, baseVersion = None, lastPullAt = None,
      lastPushAt = None, isLoading = False, isHydrated = False, error = None\<rparr>"

text \<open>
  What an action can throw: the normalized error of the client, or what the storage threw.
  An action is a function of the surroundings, the state of the store and the database;
  it gives how the call ended (\<open>Inl\<close> what was thrown, \<open>Inr ()\<close> a normal return), the
  new state and the new database. The asynchronous writes of an action are taken as
  completed when it ends.
\<close>

datatype Failure = ApiFailure "ApiErrorResponse NormalizedError" | StorageFailure IdbError

type_synonym Ended = "(Failure + unit) \<times> DataState \<times> Idb"

text \<open>The message of \<open>pull\<close>'s \<open>catch\<close>: \<open>error instanceof Error ? error.message : ...\<close>.\<close>

fun failure_message :: "Failure \<Rightarrow> string" where
  "failure_message (ApiFailure e) = ne_message e"
| "failure_message (StorageFailure (StorageError m)) = m"
| "failure_message (StorageFailure NonError) = MSG_PULL_UNKNOWN"

definition pull_catch :: "Failure \<Rightarrow> DataState \<Rightarrow> Idb \<Rightarrow> Ended" where
  "pull_catch e st db = (Inl e, st\<lparr>isLoading := False, error := Some (failure_message e)\<rparr>, db)"

definition pull :: "Env \<Rightarrow> (PullResponse, ApiErrorResponse) Transport \<Rightarrow> DataState \<Rightarrow> Idb \<Rightarrow> Ended"
where
  "pull env t st db =
     (let st1 = st\<lparr>isLoading := True, error := None\<rparr> in
      case pullData t of
        Inl e \<Rightarrow> pull_catch (ApiFailure e) st1 db
      | Inr pullRes \<Rightarrow>
          (let st2 = st1\<lparr>rules := rw_items (pr_rules pullRes),
                         tags := pr_tags pullRes,
                         baseVersion := Some (pr_version pullRes),
                         lastPullAt := Some (pr_pulledAt pullRes),
                         isLoading := False,
                         error := None\<rparr>;
               snapshot = \<lparr>snap_savedAt = pr_pulledAt pullRes,
                           snap_baseVersion = pr_version pullRes,
                           snap_rules = rw_items (pr_rules pullRes),
                           snap_tags = pr_tags pullRes\<rparr>
           in case saveAfterPull env snapshot db of
                (Inl e, db') \<Rightarrow> pull_catch (StorageFailure e) st2 db'
              | (Inr u, db') \<Rightarrow> (Inr (), st2, db')))"

text \<open>The snapshot that \<open>pull\<close> builds from a response and hands to \<open>saveAfterPull\<close>.\<close>

definition pulled_snapshot :: "PullResponse \<Rightarrow> LocalSnapshot" where
  "pulled_snapshot pullRes =
     \<lparr>snap_savedAt = pr_pulledAt pullRes, snap_baseVersion = pr_version pullRes,
      snap_rules = rw_items (pr_rules pullRes), snap_tags = pr_tags pullRes\<rparr>"

text \<open>
  \<open>hydrate\<close>. The four loads never reject, so the \<open>catch\<close> of the source is not reached.
  A stored snapshot has a \<open>baseVersion\<close> (a number by its type), so
  \<open>snapshot.baseVersion ?? baseVersion\<close> is the snapshot's.
\<close>

definition hydrate :: "Env \<Rightarrow> DataState \<Rightarrow> Idb \<Rightarrow> Ended" where
  "hydrate env st db =
     (let snapshot = loadSnapshot env snapshot_current db;
          lastPullAt' = as_string (loadMeta env meta_lastPullAt db);
          lastPushAt' = as_string (loadMeta env meta_lastPushAt db);
          baseVersion' = as_number (loadMeta env meta_baseVersion db)
      in case snapshot of
           Some s \<Rightarrow>
             (Inr (),
              st\<lparr>rules := snap_rules s,
                 tags := snap_tags s,
                 baseVersion := Some (snap_baseVersion s),
                 lastPullAt := (case lastPullAt' of Some a \<Rightarrow> Some a | None \<Rightarrow> Some (snap_savedAt s)),
                 lastPushAt := lastPushAt',
                 isHydrated := True\<rparr>,
              db)
         | None \<Rightarrow>
             (Inr (),
              st\<lparr>baseVersion := baseVersion', lastPullAt := lastPullAt',
                 lastPushAt := lastPushAt', isHydrated := True\<rparr>,
              db))"

text \<open>
  \<open>persistCurrent\<close>: returns at once while \<open>baseVersion\<close> is \<open>null\<close>; otherwise writes the
  current slot, and a failure of that write is logged and not thrown.
\<close>

definition persistCurrent :: "Env \<Rightarrow> DataState \<Rightarrow> Idb \<Rightarrow> Ended" where
  "persistCurrent env st db =
     (case baseVersion st of
        None \<Rightarrow> (Inr (), st, db)
      | Some v \<Rightarrow>
          (case saveSnapshot env snapshot_current
                  \<lparr>snap_savedAt = now env, snap_baseVersion = v,
                   snap_rules = rules st, snap_tags = tags st\<rparr> db of
             (Inl e, db') \<Rightarrow> (Inr (), st, db')
           | (Inr u, db') \<Rightarrow> (Inr (), st, db')))"

text \<open>
  The editing actions set the state and then call \<open>get().persistCurrent().catch(console.error)\<close>:
  \<open>persistCurrent\<close> reads the state just set, and nothing it does is thrown to the caller.
\<close>

definition persist_detached :: "Env \<Rightarrow> DataState \<Rightarrow> Idb \<Rightarrow> Ended" where
  "persist_detached env st db =
     (case persistCurrent env st db of (r, st', db') \<Rightarrow> (Inr (), st', db'))"

definition addRule :: "Env \<Rightarrow> Rule \<Rightarrow> DataState \<Rightarrow> Idb \<Rightarrow> Ended" where
  "addRule env rule st db = persist_detached env (st\<lparr>rules := rules st @ [rule]\<rparr>) db"

definition updateRule :: "Env \<Rightarrow> string \<Rightarrow> PartialRule \<Rightarrow> DataState \<Rightarrow> Idb \<Rightarrow> Ended" where
  "updateRule env rid updates st db =
     persist_detached env
       (st\<lparr>rules := map (\<lambda>r. if ruleId r = rid then spread_rule r updates else r) (rules st)\<rparr>)
       db"

definition deleteRule :: "Env \<Rightarrow> string \<Rightarrow> DataState \<Rightarrow> Idb \<Rightarrow> Ended" where
  "deleteRule env rid st db =
     persist_detached env (st\<lparr>rules := filter (\<lambda>r. ruleId r \<noteq> rid) (rules st)\<rparr>) db"

definition setTags :: "Env \<Rightarrow> TagData \<Rightarrow> DataState \<Rightarrow> Idb \<Rightarrow> Ended" where
  "setTags env tags' st db = persist_detached env (st\<lparr>tags := tags'\<rparr>) db"

definition clearError :: "DataState \<Rightarrow> DataState" where
  "clearError st = st\<lparr>error := None\<rparr>"

section \<open>Sequences of local edits\<close>

text \<open>
  The local mutations the user interface can issue, and a run of them: each call has its
  own surroundings (clock reading, storage faults), and the next call starts from the
  state and the database the previous one left.
\<close>

datatype Edit =
    AddRule Rule | UpdateRule string PartialRule | DeleteRule string | SetTags TagData
  | PersistCurrent

fun apply_edit :: "Env \<Rightarrow> Edit \<Rightarrow> DataState \<Rightarrow> Idb \<Rightarrow> Ended" where
  "apply_edit env (AddRule r) st db = addRule env r st db"
| "apply_edit env (UpdateRule rid updates) st db = updateRule env rid updates st db"
| "apply_edit env (DeleteRule rid) st db = deleteRule env rid st db"
| "apply_edit env (SetTags t) st db = setTags env t st db"
| "apply_edit env PersistCurrent st db = persistCurrent env st db"

fun apply_edits :: "(Env \<times> Edit) list \<Rightarrow> DataState \<Rightarrow> Idb \<Rightarrow> DataState \<times> Idb" where
  "apply_edits [] st db = (st, db)"
| "apply_edits ((env, e) # es) st db =
     (case apply_edit env e st db of (r, st', db') \<Rightarrow> apply_edits es st' db')"

section \<open>Sample data\<close>

text \<open>
  Concrete values for the examples below: a rule in the shape of the source's sample
  rules, surroundings in which the storage works, the database
  as it is created, and the pull response of the specification's scenario A.
\<close>

definition sample_rule :: "string \<Rightarrow> Rule" where
  "sample_rule rid =
     \<lparr>ruleId = rid, sectionNumber = ''3.2.1'', title = ''Connection not released'',
      level = 3, category = resource_management, severity = CRITICAL,
      description = ''A JDBC connection must be closed.'',
      message = ''Connection is not closed.'',
      suggestion = ''Use try-with-resources.'',
      keywordList = [''Connection'', ''close''], source = ''guideline:3.2.1'',
      sourceFile = ''guideline_1.docx'', sourcePrefix = ''G1'',
      problematicCode = None, fixedCode = None, hasTables = False, hasImages = False,
      tables = [],
      metadata = \<lparr>rm_createdAt = ''2026-01-01T00:00:00.000Z'', rm_source = ''3.2.1'',
                  rm_sourceFile = ''guideline_1.docx'', rm_version = ''4.3''\<rparr>,
      checkType = llm_with_regex, checkTypeReason = ''needs context'',
      tagCondition = ''USES_CONNECTION && !HAS_TRY_WITH_RESOURCES'',
      requiredTags = [''USES_CONNECTION''], excludeTags = [''HAS_TRY_WITH_RESOURCES''],
      antiPatterns = [], goodPatterns = [], isActive = True\<rparr>"

definition working_env :: "string \<Rightarrow> Env" where
  "working_env t = \<lparr>now = t, storage_fault = (\<lambda>r. None)\<rparr>"

definition empty_db :: Idb where
  "empty_db = \<lparr>snapshots = Map.empty, meta = Map.empty\<rparr>"

definition sample_tags :: TagData where
  "sample_tags = EMPTY_TAG_DATA ''2026-01-01T00:00:00.000Z''"

definition sample_pull :: PullResponse where
  "sample_pull =
     \<lparr>pr_version = 1000, pr_pulledAt = ''2026-01-02T03:04:05.000Z'',
      pr_rules = \<lparr>rw_count = 1, rw_items = [sample_rule ''G1.A.1'']\<rparr>,
      pr_tags = sample_tags,
      pr_metadata = \<lparr>pm_ruleCount = 1, pm_tagCount = 0, pm_compoundTagCount = 0\<rparr>\<rparr>"

definition sample_snapshot :: LocalSnapshot where
  "sample_snapshot =
     \<lparr>snap_savedAt = ''2026-01-02T03:04:05.000Z'', snap_baseVersion = 1000,
      snap_rules = [sample_rule ''G1.A.1''], snap_tags = sample_tags\<rparr>"

definition sample_push_request :: PushRequest where
  "sample_push_request =
     \<lparr>rq_baseVersion = Some 1000, rq_rules = [sample_rule ''G1.A.1''],
      rq_tags = sample_tags, rq_force = False\<rparr>"

definition sample_conflict :: PushConflictResponse where
  "sample_conflict =
     \<lparr>cf_message = ''Version conflict: pull or force-push.'', cf_baseVersion = 1000,
      cf_currentVersion = 1005\<rparr>"

text \<open>The state of the store after scenario A: the initial state with the pull installed.\<close>

definition pulled_state :: DataState where
  "pulled_state =
     (initialState ''2026-01-01T00:00:00.000Z'')
       \<lparr>rules := [sample_rule ''G1.A.1''], tags := sample_tags, baseVersion := Some 1000,
        lastPullAt := Some ''2026-01-02T03:04:05.000Z''\<rparr>"

text \<open>The database after scenario A.\<close>

definition pulled_db :: Idb where
  "pulled_db =
     \<lparr>snapshots = [snapshot_origin \<mapsto> sample_snapshot, snapshot_current \<mapsto> sample_snapshot],
      meta = [meta_lastPullAt \<mapsto> MetaString ''2026-01-02T03:04:05.000Z'',
              meta_baseVersion \<mapsto> MetaNumber 1000]\<rparr>"

text \<open>
  A database that has been in use: an earlier pull (version 900), local edits and a push
  (version 950) have filled every slot and every metadata key. \<open>used_state\<close> is the state
  of the store that goes with it.
\<close>

definition old_origin :: LocalSnapshot where
  "old_origin =
     \<lparr>snap_savedAt = ''2025-12-01T00:00:00.000Z'', snap_baseVersion = 900,
      snap_rules = [sample_rule ''G0.X.0''], snap_tags = sample_tags\<rparr>"

definition old_push :: LocalSnapshot where
  "old_push =
     \<lparr>snap_savedAt = ''2025-12-15T00:00:00.000Z'', snap_baseVersion = 950,
      snap_rules = [sample_rule ''G0.X.0'', sample_rule ''G0.Y.1''], snap_tags = sample_tags\<rparr>"

definition used_db :: Idb where
  "used_db =
     \<lparr>snapshots = [snapshot_origin \<mapsto> old_origin, snapshot_current \<mapsto> old_push,
                   snapshot_lastPush \<mapsto> old_push],
      meta = [meta_lastPullAt \<mapsto> MetaString ''2025-12-01T00:00:00.000Z'',
              meta_lastPushAt \<mapsto> MetaString ''2025-12-15T00:00:00.000Z'',
              meta_baseVersion \<mapsto> MetaNumber 950]\<rparr>"

definition used_state :: DataState where
  "used_state =
     \<lparr>rules = [sample_rule ''G0.X.0'', sample_rule ''G0.Y.1''], tags = sample_tags,
      baseVersion = Some 950, lastPullAt = Some ''2025-12-01T00:00:00.000Z'',
      lastPushAt = Some ''2025-12-15T00:00:00.000Z'', isLoading = False, isHydrated = True,
      error = Some ''stale error''\<rparr>"

text \<open>The local snapshot of scenario B (a second rule added after the pull), as it is pushed.\<close>

definition edited_snapshot :: LocalSnapshot where
  "edited_snapshot =
     \<lparr>snap_savedAt = ''2026-01-02T04:00:00.000Z'', snap_baseVersion = 1000,
      snap_rules = [sample_rule ''G1.A.1'', sample_rule ''G1.B.2''], snap_tags = sample_tags\<rparr>"

section \<open>Facts about the client and the storage\<close>

lemma spread_rule_empty: "spread_rule r empty_updates = r"
  by (simp add: spread_rule_def empty_updates_def spread_field_def)

lemma normalize_status [simp]:
  "ne_status (normalize m c e) = map_option er_status (ax_response e)"
  by (simp add: normalize_def Let_def)

lemma normalize_originalError [simp]: "ne_originalError (normalize m c e) = e"
  by (simp add: normalize_def Let_def)

text \<open>What \<open>pushData\<close> does with a failed request, by the status and the body of the reply.\<close>

lemma pushData_rejected:
  "pushData payload (Rejected e) =
     (if map_option er_status (ax_response e) = Some 409 then
        (case Option.bind (ax_response e) er_data of
           Some d \<Rightarrow>
             if truthy d then Inr d
             else Inl (normalize push_body_message push_body_error e)
         | None \<Rightarrow> Inl (normalize push_body_message push_body_error e))
      else Inl (normalize push_body_message push_body_error e))"
  by (cases "ax_response e") (simp_all add: pushData_def client_request_def)

lemma pushData_fulfilled: "pushData payload (Fulfilled d) = Inr d"
  by (simp add: pushData_def client_request_def)

lemma saveSnapshot_cases:
  "saveSnapshot env slot s db =
     (if storage_fault env (PutSnapshot slot) = None
      then (Inr (), db\<lparr>snapshots := (snapshots db)(slot \<mapsto> s)\<rparr>)
      else (Inl (the (storage_fault env (PutSnapshot slot))), db))"
  by (simp add: saveSnapshot_def split: option.splits)

lemma saveMeta_cases:
  "saveMeta env slot v db =
     (if storage_fault env (PutMeta slot) = None
      then (Inr (), db\<lparr>meta := (meta db)(slot \<mapsto> v)\<rparr>)
      else (Inl (the (storage_fault env (PutMeta slot))), db))"
  by (simp add: saveMeta_def split: option.splits)

text \<open>
  The composite writes succeed exactly when none of their four requests fails, and then
  the database is the old one with the four keys replaced.
\<close>

lemma saveAfterPull_success_iff:
  "fst (saveAfterPull env s db) = Inr () \<longleftrightarrow>
     storage_fault env (PutSnapshot snapshot_origin) = None \<and>
     storage_fault env (PutSnapshot snapshot_current) = None \<and>
     storage_fault env (PutMeta meta_lastPullAt) = None \<and>
     storage_fault env (PutMeta meta_baseVersion) = None"
  by (simp add: saveAfterPull_def saveSnapshot_cases saveMeta_cases)

lemma saveAfterPull_success_db:
  assumes "fst (saveAfterPull env s db) = Inr ()"
  shows "snd (saveAfterPull env s db) =
           db\<lparr>snapshots := (snapshots db)(snapshot_origin \<mapsto> s, snapshot_current \<mapsto> s),
              meta := (meta db)(meta_lastPullAt \<mapsto> MetaString (snap_savedAt s),
                                meta_baseVersion \<mapsto> MetaNumber (snap_baseVersion s))\<rparr>"
  using assms [unfolded saveAfterPull_success_iff]
  by (simp add: saveAfterPull_def saveSnapshot_cases saveMeta_cases)

lemma saveAfterPush_success_iff:
  "fst (saveAfterPush env s pushedAt newVersion db) = Inr () \<longleftrightarrow>
     storage_fault env (PutSnapshot snapshot_lastPush) = None \<and>
     storage_fault env (PutSnapshot snapshot_current) = None \<and>
     storage_fault env (PutMeta meta_lastPushAt) = None \<and>
     storage_fault env (PutMeta meta_baseVersion) = None"
  by (simp add: saveAfterPush_def saveSnapshot_cases saveMeta_cases Let_def)

lemma saveAfterPush_success_db:
  assumes "fst (saveAfterPush env s pushedAt newVersion db) = Inr ()"
  shows "snd (saveAfterPush env s pushedAt newVersion db) =
           db\<lparr>snapshots := (snapshots db)
                 (snapshot_lastPush \<mapsto> s\<lparr>snap_baseVersion := newVersion, snap_savedAt := pushedAt\<rparr>,
                  snapshot_current \<mapsto> s\<lparr>snap_baseVersion := newVersion, snap_savedAt := pushedAt\<rparr>),
              meta := (meta db)(meta_lastPushAt \<mapsto> MetaString pushedAt,
                                meta_baseVersion \<mapsto> MetaNumber newVersion)\<rparr>"
  using assms [unfolded saveAfterPush_success_iff]
  by (simp add: saveAfterPush_def saveSnapshot_cases saveMeta_cases Let_def)

text \<open>
  A 409 reply to a push: a body that counts as true is returned whatever it is, and a
  reply with no body, or with a body that counts as false (\<open>null\<close>, \<open>false\<close>, \<open>0\<close>, the
  empty string), is thrown again as the normalized error.
\<close>

lemma pushData_409_truthy_body:
  assumes "ax_response e = Some r" and "er_status r = 409" and "er_data r = Some d"
  shows "pushData payload (Rejected e) =
           (if truthy d then Inr d else Inl (normalize push_body_message push_body_error e))"
  using assms by (simp add: pushData_rejected)

lemma pushData_409_no_body:
  assumes "ax_response e = Some r" and "er_status r = 409" and "er_data r = None"
  shows "pushData payload (Rejected e) = Inl (normalize push_body_message push_body_error e)"
  using assms by (simp add: pushData_rejected)

text \<open>With a storage that accepts the four requests, the composite writes succeed.\<close>

lemma saveAfterPull_working:
  assumes "storage_fault env (PutSnapshot snapshot_origin) = None"
      and "storage_fault env (PutSnapshot snapshot_current) = None"
      and "storage_fault env (PutMeta meta_lastPullAt) = None"
      and "storage_fault env (PutMeta meta_baseVersion) = None"
  shows "saveAfterPull env s db =
           (Inr (),
            db\<lparr>snapshots := (snapshots db)(snapshot_origin \<mapsto> s, snapshot_current \<mapsto> s),
               meta := (meta db)(meta_lastPullAt \<mapsto> MetaString (snap_savedAt s),
                                 meta_baseVersion \<mapsto> MetaNumber (snap_baseVersion s))\<rparr>)"
proof -
  from assms have ok: "fst (saveAfterPull env s db) = Inr ()"
    by (simp add: saveAfterPull_success_iff)
  from saveAfterPull_success_db [OF ok] ok show ?thesis
    by (simp add: prod_eq_iff)
qed

lemma saveAfterPush_working:
  assumes "storage_fault env (PutSnapshot snapshot_lastPush) = None"
      and "storage_fault env (PutSnapshot snapshot_current) = None"
      and "storage_fault env (PutMeta meta_lastPushAt) = None"
      and "storage_fault env (PutMeta meta_baseVersion) = None"
  shows "saveAfterPush env s pushedAt newVersion db =
           (Inr (),
            db\<lparr>snapshots := (snapshots db)
                  (snapshot_lastPush \<mapsto> s\<lparr>snap_baseVersion := newVersion, snap_savedAt := pushedAt\<rparr>,
                   snapshot_current \<mapsto> s\<lparr>snap_baseVersion := newVersion, snap_savedAt := pushedAt\<rparr>),
               meta := (meta db)(meta_lastPushAt \<mapsto> MetaString pushedAt,
                                 meta_baseVersion \<mapsto> MetaNumber newVersion)\<rparr>)"
proof -
  from assms have ok: "fst (saveAfterPush env s pushedAt newVersion db) = Inr ()"
    by (simp add: saveAfterPush_success_iff)
  from saveAfterPush_success_db [OF ok] ok show ?thesis
    by (simp add: prod_eq_iff)
qed

section \<open>Facts about the store's actions\<close>

lemma map_update_absent:
  "rid \<notin> ruleId ` set rs \<Longrightarrow> map (\<lambda>r. if ruleId r = rid then f r else r) rs = rs"
  by (induction rs) auto

lemma persist_detached_result [simp]: "fst (persist_detached env st db) = Inr ()"
  by (simp add: persist_detached_def split: prod.splits)

lemma persistCurrent_state [simp]: "fst (snd (persistCurrent env st db)) = st"
  by (simp add: persistCurrent_def split: option.splits prod.splits)

lemma persist_detached_state [simp]: "fst (snd (persist_detached env st db)) = st"
proof -
  obtain r st' db' where p: "persistCurrent env st db = (r, st', db')"
    by (cases "persistCurrent env st db") auto
  with persistCurrent_state [of env st db] have "st' = st" by simp
  with p show ?thesis by (simp add: persist_detached_def)
qed

lemma persistCurrent_null:
  "baseVersion st = None \<Longrightarrow> persistCurrent env st db = (Inr (), st, db)"
  by (simp add: persistCurrent_def)

lemma persist_detached_null:
  "baseVersion st = None \<Longrightarrow> persist_detached env st db = (Inr (), st, db)"
  by (simp add: persist_detached_def persistCurrent_null)

text \<open>No local edit changes \<open>baseVersion\<close>, and none writes while it is \<open>null\<close>.\<close>

lemma apply_edit_baseVersion:
  "baseVersion (fst (snd (apply_edit env e st db))) = baseVersion st"
  by (cases e) (simp_all add: addRule_def updateRule_def deleteRule_def setTags_def)

lemma apply_edit_null:
  "baseVersion st = None \<Longrightarrow> snd (snd (apply_edit env e st db)) = db"
  by (cases e)
    (simp_all add: addRule_def updateRule_def deleteRule_def setTags_def
      persist_detached_null persistCurrent_null)

lemma apply_edits_null:
  "baseVersion st = None \<Longrightarrow>
     snd (apply_edits es st db) = db \<and> baseVersion (fst (apply_edits es st db)) = None"
proof (induction es arbitrary: st)
  case Nil
  then show ?case by simp
next
  case (Cons a es)
  obtain env e where a: "a = (env, e)" by (cases a)
  obtain r st' db' where step: "apply_edit env e st db = (r, st', db')"
    by (cases "apply_edit env e st db")
  from apply_edit_null [OF Cons.prems, of env e db] step have db': "db' = db" by simp
  from apply_edit_baseVersion [of env e st db] step Cons.prems
  have "baseVersion st' = None" by simp
  from Cons.IH [OF this] a step db' show ?case by simp
qed

text \<open>No local edit and no write after a push touches the origin slot.\<close>

lemma persistCurrent_origin:
  "snapshots (snd (snd (persistCurrent env st db))) snapshot_origin = snapshots db snapshot_origin"
  by (simp add: persistCurrent_def saveSnapshot_cases split: option.splits)

lemma persist_detached_origin:
  "snapshots (snd (snd (persist_detached env st db))) snapshot_origin
     = snapshots db snapshot_origin"
proof -
  obtain r st' db' where p: "persistCurrent env st db = (r, st', db')"
    by (cases "persistCurrent env st db") auto
  with persistCurrent_origin [of env st db] show ?thesis
    by (simp add: persist_detached_def)
qed

lemma apply_edit_origin:
  "snapshots (snd (snd (apply_edit env e st db))) snapshot_origin = snapshots db snapshot_origin"
  by (cases e)
    (simp_all add: addRule_def updateRule_def deleteRule_def setTags_def
      persist_detached_origin persistCurrent_origin)

lemma apply_edits_origin:
  "snapshots (snd (apply_edits es st db)) snapshot_origin = snapshots db snapshot_origin"
proof (induction es arbitrary: st db)
  case Nil
  then show ?case by simp
next
  case (Cons a es)
  obtain env e where a: "a = (env, e)" by (cases a)
  obtain r st' db' where step: "apply_edit env e st db = (r, st', db')"
    by (cases "apply_edit env e st db")
  from apply_edit_origin [of env e st db] step
  have "snapshots db' snapshot_origin = snapshots db snapshot_origin" by simp
  with Cons.IH [of st' db'] a step show ?case by simp
qed

lemma hydrate_db: "snd (snd (hydrate env st db)) = db"
  by (simp add: hydrate_def Let_def split: option.splits)

lemma saveAfterPush_origin:
  "snapshots (snd (saveAfterPush env s pushedAt newVersion db)) snapshot_origin
     = snapshots db snapshot_origin"
  by (simp add: saveAfterPush_def saveSnapshot_cases saveMeta_cases Let_def)

text \<open>What a successful \<open>pull\<close> leaves behind.\<close>

lemma pull_success:
  assumes "pull env (Fulfilled pullRes) st db = (Inr (), st1, db1)"
  shows "st1 = st\<lparr>rules := rw_items (pr_rules pullRes), tags := pr_tags pullRes,
                   baseVersion := Some (pr_version pullRes),
                   lastPullAt := Some (pr_pulledAt pullRes),
                   isLoading := False, error := None\<rparr>"
    and "saveAfterPull env (pulled_snapshot pullRes) db = (Inr (), db1)"
  using assms
  by (auto simp: pull_def pullData_def client_request_def pull_catch_def pulled_snapshot_def
      Let_def split: prod.splits sum.splits)

lemma pull_success_db:
  assumes "pull env (Fulfilled pullRes) st db = (Inr (), st1, db1)"
  shows "db1 = db\<lparr>snapshots := (snapshots db)(snapshot_origin \<mapsto> pulled_snapshot pullRes,
                                               snapshot_current \<mapsto> pulled_snapshot pullRes),
              meta := (meta db)(meta_lastPullAt \<mapsto> MetaString (pr_pulledAt pullRes),
                                meta_baseVersion \<mapsto> MetaNumber (pr_version pullRes))\<rparr>"
proof -
  from pull_success(2) [OF assms]
  have s: "saveAfterPull env (pulled_snapshot pullRes) db = (Inr (), db1)" .
  then have ok: "fst (saveAfterPull env (pulled_snapshot pullRes) db) = Inr ()" by simp
  from saveAfterPull_success_db [OF ok] s show ?thesis
    by (simp add: pulled_snapshot_def)
qed

text \<open>A pull whose request is answered and whose four writes are accepted.\<close>

lemma pull_working:
  assumes "storage_fault env (PutSnapshot snapshot_origin) = None"
      and "storage_fault env (PutSnapshot snapshot_current) = None"
      and "storage_fault env (PutMeta meta_lastPullAt) = None"
      and "storage_fault env (PutMeta meta_baseVersion) = None"
  shows "pull env (Fulfilled pullRes) st db =
           (Inr (),
            st\<lparr>rules := rw_items (pr_rules pullRes), tags := pr_tags pullRes,
               baseVersion := Some (pr_version pullRes),
               lastPullAt := Some (pr_pulledAt pullRes), isLoading := False, error := None\<rparr>,
            db\<lparr>snapshots := (snapshots db)(snapshot_origin \<mapsto> pulled_snapshot pullRes,
                                             snapshot_current \<mapsto> pulled_snapshot pullRes),
               meta := (meta db)(meta_lastPullAt \<mapsto> MetaString (pr_pulledAt pullRes),
                                 meta_baseVersion \<mapsto> MetaNumber (pr_version pullRes))\<rparr>)"
proof -
  have "saveAfterPull env (pulled_snapshot pullRes) db =
          (Inr (),
           db\<lparr>snapshots := (snapshots db)(snapshot_origin \<mapsto> pulled_snapshot pullRes,
                                            snapshot_current \<mapsto> pulled_snapshot pullRes),
              meta := (meta db)(meta_lastPullAt \<mapsto> MetaString (pr_pulledAt pullRes),
                                meta_baseVersion \<mapsto> MetaNumber (pr_version pullRes))\<rparr>)"
    using saveAfterPull_working [OF assms, of "pulled_snapshot pullRes" db]
    by (simp add: pulled_snapshot_def)
  then show ?thesis
    by (simp add: pull_def pullData_def client_request_def pulled_snapshot_def Let_def)
qed

text \<open>An update without a \<open>ruleId\<close> property keeps every \<open>ruleId\<close>.\<close>

lemma spread_rule_keeps_ruleId:
  "p_ruleId updates = None \<Longrightarrow> ruleId (spread_rule r updates) = ruleId r"
  by (simp add: spread_rule_def spread_field_def)

lemma updateRule_keeps_ruleIds:
  assumes "p_ruleId updates = None"
  shows "map ruleId (rules (fst (snd (updateRule env rid updates st db)))) = map ruleId (rules st)"
  using assms by (simp add: updateRule_def spread_rule_keeps_ruleId)

text \<open>Scenario A of the specification, computed.\<close>

lemma pulled_snapshot_sample: "pulled_snapshot sample_pull = sample_snapshot"
  by (simp add: pulled_snapshot_def sample_pull_def sample_snapshot_def)

lemma scenario_A:
  "pull (working_env ''2026-01-02T03:04:06.000Z'') (Fulfilled sample_pull)
     (initialState ''2026-01-01T00:00:00.000Z'') empty_db
   = (Inr (), pulled_state, pulled_db)"
  by (simp add: pull_def pullData_def client_request_def saveAfterPull_def saveSnapshot_def
      saveMeta_def working_env_def empty_db_def pulled_db_def pulled_state_def initialState_def
      sample_pull_def sample_snapshot_def Let_def)

section \<open>The claims\<close>

text \<open>
  Claim C1. A version conflict is the reply of status 409 whose body is a
  \<open>PushConflictResponse\<close>. For every push request, and whatever message the transport
  error carries, \<open>pushData\<close> ends such a reply by returning that body as its result: the
  call does not throw.
\<close>

theorem pushData_returns_conflict:
  "pushData payload
     (Rejected \<lparr>ax_message = m,
                ax_response = Some \<lparr>er_status = 409,
                                      er_data = Some (ResponseObject (PushConflict c))\<rparr>\<rparr>)
   = Inr (ResponseObject (PushConflict c))"
  by (simp add: pushData_rejected)

text \<open>An instance: the conflict of scenario C (base version 1000, server at 1005).\<close>

theorem pushData_returns_conflict_witness:
  "pushData sample_push_request
     (Rejected \<lparr>ax_message = Some ''Request failed with status code 409'',
                ax_response = Some \<lparr>er_status = 409,
                                      er_data = Some (ResponseObject (PushConflict sample_conflict))\<rparr>\<rparr>)
   = Inr (ResponseObject (PushConflict
            \<lparr>cf_message = ''Version conflict: pull or force-push.'', cf_baseVersion = 1000,
             cf_currentVersion = 1005\<rparr>))"
  using pushData_returns_conflict
    [of sample_push_request "Some ''Request failed with status code 409''" sample_conflict]
  by (simp add: sample_conflict_def)

text \<open>
  Claim C2. For every snapshot and every database, when the storage accepts the four
  requests, \<open>saveAfterPull(snapshot)\<close> completes, and afterwards the origin slot and the
  current slot both hold that snapshot (so they hold equal data), \<open>meta:lastPullAt\<close> is
  \<open>snapshot.savedAt\<close> and \<open>meta:baseVersion\<close> is \<open>snapshot.baseVersion\<close>, whatever these
  four keys held before. The lastPush slot and \<open>meta:lastPushAt\<close> are as before.
\<close>

theorem saveAfterPull_writes:
  assumes "storage_fault env (PutSnapshot snapshot_origin) = None"
      and "storage_fault env (PutSnapshot snapshot_current) = None"
      and "storage_fault env (PutMeta meta_lastPullAt) = None"
      and "storage_fault env (PutMeta meta_baseVersion) = None"
  shows "fst (saveAfterPull env s db) = Inr ()
       \<and> snapshots (snd (saveAfterPull env s db)) snapshot_origin = Some s
       \<and> snapshots (snd (saveAfterPull env s db)) snapshot_current = Some s
       \<and> meta (snd (saveAfterPull env s db)) meta_lastPullAt = Some (MetaString (snap_savedAt s))
       \<and> meta (snd (saveAfterPull env s db)) meta_baseVersion
           = Some (MetaNumber (snap_baseVersion s))
       \<and> snapshots (snd (saveAfterPull env s db)) snapshot_origin
           = snapshots (snd (saveAfterPull env s db)) snapshot_current
       \<and> snapshots (snd (saveAfterPull env s db)) snapshot_lastPush = snapshots db snapshot_lastPush
       \<and> meta (snd (saveAfterPull env s db)) meta_lastPushAt = meta db meta_lastPushAt"
  by (simp add: saveAfterPull_working [OF assms])

text \<open>
  An instance: the snapshot of scenario A saved into a database in use, where it replaces
  the older origin and current snapshots and leaves the last push in place.
\<close>

theorem saveAfterPull_writes_witness:
  "snapshots used_db snapshot_origin = Some old_origin
 \<and> snapshots used_db snapshot_current = Some old_push
 \<and> fst (saveAfterPull (working_env ''2026-01-02T03:04:06.000Z'') sample_snapshot used_db) = Inr ()
 \<and> snapshots (snd (saveAfterPull (working_env ''2026-01-02T03:04:06.000Z'') sample_snapshot used_db))
      snapshot_origin = Some sample_snapshot
 \<and> snapshots (snd (saveAfterPull (working_env ''2026-01-02T03:04:06.000Z'') sample_snapshot used_db))
      snapshot_current = Some sample_snapshot
 \<and> meta (snd (saveAfterPull (working_env ''2026-01-02T03:04:06.000Z'') sample_snapshot used_db))
      meta_lastPullAt = Some (MetaString ''2026-01-02T03:04:05.000Z'')
 \<and> meta (snd (saveAfterPull (working_env ''2026-01-02T03:04:06.000Z'') sample_snapshot used_db))
      meta_baseVersion = Some (MetaNumber 1000)
 \<and> snapshots (snd (saveAfterPull (working_env ''2026-01-02T03:04:06.000Z'') sample_snapshot used_db))
      snapshot_lastPush = Some old_push
 \<and> meta (snd (saveAfterPull (working_env ''2026-01-02T03:04:06.000Z'') sample_snapshot used_db))
      meta_lastPushAt = Some (MetaString ''2025-12-15T00:00:00.000Z'')"
proof -
  have w: "storage_fault (working_env ''2026-01-02T03:04:06.000Z'') (PutSnapshot snapshot_origin) = None"
    "storage_fault (working_env ''2026-01-02T03:04:06.000Z'') (PutSnapshot snapshot_current) = None"
    "storage_fault (working_env ''2026-01-02T03:04:06.000Z'') (PutMeta meta_lastPullAt) = None"
    "storage_fault (working_env ''2026-01-02T03:04:06.000Z'') (PutMeta meta_baseVersion) = None"
    by (simp_all add: working_env_def)
  have u: "snapshots used_db snapshot_origin = Some old_origin"
    "snapshots used_db snapshot_current = Some old_push"
    "snapshots used_db snapshot_lastPush = Some old_push"
    "meta used_db meta_lastPushAt = Some (MetaString ''2025-12-15T00:00:00.000Z'')"
    by (simp_all add: used_db_def)
  have s: "snap_savedAt sample_snapshot = ''2026-01-02T03:04:05.000Z''"
    "snap_baseVersion sample_snapshot = 1000"
    by (simp_all add: sample_snapshot_def)
  from saveAfterPull_writes [OF w, of sample_snapshot used_db] u s
  show ?thesis by simp
qed

text \<open>
  Claim C3. For every snapshot, \<open>pushedAt\<close>, \<open>newVersion\<close> and database, when the
  storage accepts the four requests, \<open>saveAfterPush(snapshot, pushedAt, newVersion)\<close>
  completes, and afterwards the lastPush slot and the current slot both hold the snapshot
  with \<open>baseVersion\<close> set to \<open>newVersion\<close> and \<open>savedAt\<close> set to \<open>pushedAt\<close> (so they
  hold equal data), \<open>meta:lastPushAt\<close> is \<open>pushedAt\<close> and \<open>meta:baseVersion\<close> is
  \<open>newVersion\<close>. The origin slot and \<open>meta:lastPullAt\<close> are as before.
\<close>

theorem saveAfterPush_writes:
  assumes "storage_fault env (PutSnapshot snapshot_lastPush) = None"
      and "storage_fault env (PutSnapshot snapshot_current) = None"
      and "storage_fault env (PutMeta meta_lastPushAt) = None"
      and "storage_fault env (PutMeta meta_baseVersion) = None"
  shows "fst (saveAfterPush env s pushedAt newVersion db) = Inr ()
       \<and> snapshots (snd (saveAfterPush env s pushedAt newVersion db)) snapshot_lastPush
           = Some (s\<lparr>snap_baseVersion := newVersion, snap_savedAt := pushedAt\<rparr>)
       \<and> snapshots (snd (saveAfterPush env s pushedAt newVersion db)) snapshot_current
           = Some (s\<lparr>snap_baseVersion := newVersion, snap_savedAt := pushedAt\<rparr>)
       \<and> meta (snd (saveAfterPush env s pushedAt newVersion db)) meta_lastPushAt
           = Some (MetaString pushedAt)
       \<and> meta (snd (saveAfterPush env s pushedAt newVersion db)) meta_baseVersion
           = Some (MetaNumber newVersion)
       \<and> snapshots (snd (saveAfterPush env s pushedAt newVersion db)) snapshot_lastPush
           = snapshots (snd (saveAfterPush env s pushedAt newVersion db)) snapshot_current
       \<and> snapshots (snd (saveAfterPush env s pushedAt newVersion db)) snapshot_origin
           = snapshots db snapshot_origin
       \<and> meta (snd (saveAfterPush env s pushedAt newVersion db)) meta_lastPullAt
           = meta db meta_lastPullAt"
  by (simp add: saveAfterPush_working [OF assms])

text \<open>
  An instance: scenario D. After the pull of scenario A and the edit of scenario B, the
  forced push comes back with version 1006; the pulled origin stays.
\<close>

theorem saveAfterPush_writes_witness:
  "snapshots pulled_db snapshot_current = Some sample_snapshot
 \<and> snapshots pulled_db snapshot_lastPush = None
 \<and> fst (saveAfterPush (working_env ''2026-01-03T00:00:01.000Z'') edited_snapshot
          ''2026-01-03T00:00:00.000Z'' 1006 pulled_db) = Inr ()
 \<and> snapshots (snd (saveAfterPush (working_env ''2026-01-03T00:00:01.000Z'') edited_snapshot
          ''2026-01-03T00:00:00.000Z'' 1006 pulled_db)) snapshot_lastPush
      = Some \<lparr>snap_savedAt = ''2026-01-03T00:00:00.000Z'', snap_baseVersion = 1006,
              snap_rules = [sample_rule ''G1.A.1'', sample_rule ''G1.B.2''],
              snap_tags = sample_tags\<rparr>
 \<and> snapshots (snd (saveAfterPush (working_env ''2026-01-03T00:00:01.000Z'') edited_snapshot
          ''2026-01-03T00:00:00.000Z'' 1006 pulled_db)) snapshot_current
      = Some \<lparr>snap_savedAt = ''2026-01-03T00:00:00.000Z'', snap_baseVersion = 1006,
              snap_rules = [sample_rule ''G1.A.1'', sample_rule ''G1.B.2''],
              snap_tags = sample_tags\<rparr>
 \<and> meta (snd (saveAfterPush (working_env ''2026-01-03T00:00:01.000Z'') edited_snapshot
          ''2026-01-03T00:00:00.000Z'' 1006 pulled_db)) meta_lastPushAt
      = Some (MetaString ''2026-01-03T00:00:00.000Z'')
 \<and> meta (snd (saveAfterPush (working_env ''2026-01-03T00:00:01.000Z'') edited_snapshot
          ''2026-01-03T00:00:00.000Z'' 1006 pulled_db)) meta_baseVersion
      = Some (MetaNumber 1006)
 \<and> snapshots (snd (saveAfterPush (working_env ''2026-01-03T00:00:01.000Z'') edited_snapshot
          ''2026-01-03T00:00:00.000Z'' 1006 pulled_db)) snapshot_origin
      = Some sample_snapshot
 \<and> meta (snd (saveAfterPush (working_env ''2026-01-03T00:00:01.000Z'') edited_snapshot
          ''2026-01-03T00:00:00.000Z'' 1006 pulled_db)) meta_lastPullAt
      = Some (MetaString ''2026-01-02T03:04:05.000Z'')"
proof -
  have w: "storage_fault (working_env ''2026-01-03T00:00:01.000Z'') (PutSnapshot snapshot_lastPush) = None"
    "storage_fault (working_env ''2026-01-03T00:00:01.000Z'') (PutSnapshot snapshot_current) = None"
    "storage_fault (working_env ''2026-01-03T00:00:01.000Z'') (PutMeta meta_lastPushAt) = None"
    "storage_fault (working_env ''2026-01-03T00:00:01.000Z'') (PutMeta meta_baseVersion) = None"
    by (simp_all add: working_env_def)
  have u: "snapshots pulled_db snapshot_current = Some sample_snapshot"
    "snapshots pulled_db snapshot_lastPush = None"
    "snapshots pulled_db snapshot_origin = Some sample_snapshot"
    "meta pulled_db meta_lastPullAt = Some (MetaString ''2026-01-02T03:04:05.000Z'')"
    by (simp_all add: pulled_db_def)
  have s: "edited_snapshot\<lparr>snap_baseVersion := 1006, snap_savedAt := ''2026-01-03T00:00:00.000Z''\<rparr>
      = \<lparr>snap_savedAt = ''2026-01-03T00:00:00.000Z'', snap_baseVersion = 1006,
         snap_rules = [sample_rule ''G1.A.1'', sample_rule ''G1.B.2''],
         snap_tags = sample_tags\<rparr>"
    by (simp add: edited_snapshot_def)
  from saveAfterPush_writes
    [OF w, of edited_snapshot "''2026-01-03T00:00:00.000Z''" 1006 pulled_db] u s
  show ?thesis by simp
qed

text \<open>
  Claim C4. For every pull response, every state and every database: when the storage
  accepts the four writes of the pull, \<open>pull()\<close> returns normally with the response's
  \<open>rules.items\<close> and \<open>version\<close> installed in memory; and when, after a restart from the
  initial state, the current slot can be read, \<open>hydrate()\<close> on the database the pull left
  restores that same rules array and that same \<open>baseVersion\<close>. The tags and \<open>lastPullAt\<close>
  come back too.
\<close>

theorem pull_hydrate_roundtrip:
  assumes "storage_fault env (PutSnapshot snapshot_origin) = None"
      and "storage_fault env (PutSnapshot snapshot_current) = None"
      and "storage_fault env (PutMeta meta_lastPullAt) = None"
      and "storage_fault env (PutMeta meta_baseVersion) = None"
      and "storage_fault env' (GetSnapshot snapshot_current) = None"
  shows "(let (r, st1, db1) = pull env (Fulfilled pullRes) st db;
              (r', st2, db2) = hydrate env' (initialState loadedAt) db1
          in r = Inr ()
           \<and> rules st1 = rw_items (pr_rules pullRes)
           \<and> baseVersion st1 = Some (pr_version pullRes)
           \<and> r' = Inr ()
           \<and> rules st2 = rules st1
           \<and> baseVersion st2 = baseVersion st1
           \<and> tags st2 = tags st1
           \<and> lastPullAt st2 = lastPullAt st1
           \<and> isHydrated st2)"
proof -
  let ?snap = "\<lparr>snap_savedAt = pr_pulledAt pullRes, snap_baseVersion = pr_version pullRes,
                snap_rules = rw_items (pr_rules pullRes), snap_tags = pr_tags pullRes\<rparr>"
  let ?db1 = "db\<lparr>snapshots := (snapshots db)(snapshot_origin \<mapsto> ?snap, snapshot_current \<mapsto> ?snap),
               meta := (meta db)(meta_lastPullAt \<mapsto> MetaString (pr_pulledAt pullRes),
                                 meta_baseVersion \<mapsto> MetaNumber (pr_version pullRes))\<rparr>"
  note p = pull_working [OF assms(1-4), of pullRes st db, unfolded pulled_snapshot_def]
  have snap: "loadSnapshot env' snapshot_current ?db1 = Some ?snap"
    using assms(5) by (simp add: loadSnapshot_def)
  have lp: "as_string (loadMeta env' meta_lastPullAt ?db1) = None
          \<or> as_string (loadMeta env' meta_lastPullAt ?db1) = Some (pr_pulledAt pullRes)"
    by (simp add: loadMeta_def as_string_def split: option.splits)
  have h: "hydrate env' (initialState loadedAt) ?db1 =
             (Inr (),
              (initialState loadedAt)
                \<lparr>rules := rw_items (pr_rules pullRes), tags := pr_tags pullRes,
                 baseVersion := Some (pr_version pullRes),
                 lastPullAt := Some (pr_pulledAt pullRes),
                 lastPushAt := as_string (loadMeta env' meta_lastPushAt ?db1),
                 isHydrated := True\<rparr>,
              ?db1)"
    using lp unfolding hydrate_def Let_def snap by auto
  show ?thesis
    unfolding p Let_def prod.case h by simp
qed

text \<open>
  An instance: the pull of scenario A on a store in use (other rules, version 950), then
  a restart and \<open>hydrate\<close>.
\<close>

theorem pull_hydrate_roundtrip_witness:
  "rules used_state = [sample_rule ''G0.X.0'', sample_rule ''G0.Y.1'']
 \<and> rules (fst (snd (pull (working_env ''2026-01-02T03:04:06.000Z'') (Fulfilled sample_pull)
            used_state used_db))) = [sample_rule ''G1.A.1'']
 \<and> baseVersion (fst (snd (pull (working_env ''2026-01-02T03:04:06.000Z'') (Fulfilled sample_pull)
            used_state used_db))) = Some 1000
 \<and> rules (fst (snd (hydrate (working_env ''2026-02-01T00:00:01.000Z'')
      (initialState ''2026-02-01T00:00:00.000Z'')
      (snd (snd (pull (working_env ''2026-01-02T03:04:06.000Z'') (Fulfilled sample_pull)
            used_state used_db)))))) = [sample_rule ''G1.A.1'']
 \<and> baseVersion (fst (snd (hydrate (working_env ''2026-02-01T00:00:01.000Z'')
      (initialState ''2026-02-01T00:00:00.000Z'')
      (snd (snd (pull (working_env ''2026-01-02T03:04:06.000Z'') (Fulfilled sample_pull)
            used_state used_db)))))) = Some 1000"
proof -
  have w: "storage_fault (working_env ''2026-01-02T03:04:06.000Z'') (PutSnapshot snapshot_origin) = None"
    "storage_fault (working_env ''2026-01-02T03:04:06.000Z'') (PutSnapshot snapshot_current) = None"
    "storage_fault (working_env ''2026-01-02T03:04:06.000Z'') (PutMeta meta_lastPullAt) = None"
    "storage_fault (working_env ''2026-01-02T03:04:06.000Z'') (PutMeta meta_baseVersion) = None"
    "storage_fault (working_env ''2026-02-01T00:00:01.000Z'') (GetSnapshot snapshot_current) = None"
    by (simp_all add: working_env_def)
  have u: "rules used_state = [sample_rule ''G0.X.0'', sample_rule ''G0.Y.1'']"
    by (simp add: used_state_def)
  have s: "rw_items (pr_rules sample_pull) = [sample_rule ''G1.A.1'']"
    "pr_version sample_pull = 1000"
    by (simp_all add: sample_pull_def)
  from pull_hydrate_roundtrip
    [OF w, of sample_pull used_state used_db "''2026-02-01T00:00:00.000Z''"] u s
  show ?thesis by (simp add: Let_def split_beta)
qed

text \<open>
  Claim C5. While \<open>baseVersion\<close> is \<open>null\<close>, \<open>persistCurrent()\<close> returns with the database
  exactly as it was: no snapshot slot and no metadata key is written. The same holds for
  \<open>addRule\<close>, \<open>updateRule\<close>, \<open>deleteRule\<close> and \<open>setTags\<close>, and for every run of such
  edits, which also leaves \<open>baseVersion\<close> \<open>null\<close>.
\<close>

theorem persistCurrent_null_baseVersion_no_write:
  assumes "baseVersion st = None"
  shows "persistCurrent env st db = (Inr (), st, db)
       \<and> snd (snd (addRule env r st db)) = db
       \<and> snd (snd (updateRule env rid updates st db)) = db
       \<and> snd (snd (deleteRule env rid st db)) = db
       \<and> snd (snd (setTags env t st db)) = db
       \<and> snd (apply_edits es st db) = db
       \<and> baseVersion (fst (apply_edits es st db)) = None"
  using assms apply_edits_null [OF assms, of es db]
  by (simp add: persistCurrent_null persist_detached_null addRule_def updateRule_def
      deleteRule_def setTags_def)

text \<open>An instance: edits on the initial state, with a storage that would accept a write.\<close>

theorem persistCurrent_null_baseVersion_no_write_witness:
  "persistCurrent (working_env ''t'') (initialState ''t0'') empty_db
     = (Inr (), initialState ''t0'', empty_db)
   \<and> snd (apply_edits
        [(working_env ''t1'', AddRule (sample_rule ''G1.A.1'')),
         (working_env ''t2'', SetTags sample_tags),
         (working_env ''t3'', PersistCurrent)]
        (initialState ''t0'') empty_db) = empty_db"
proof -
  have h: "baseVersion (initialState ''t0'') = None"
    by (simp add: initialState_def)
  from persistCurrent_null_baseVersion_no_write
    [OF h, where env = "working_env ''t''" and db = empty_db
       and es = "[(working_env ''t1'', AddRule (sample_rule ''G1.A.1'')),
                  (working_env ''t2'', SetTags sample_tags),
                  (working_env ''t3'', PersistCurrent)]"]
  show ?thesis by blast
qed

text \<open>
  Claim C6. None of \<open>addRule\<close>, \<open>updateRule\<close>, \<open>deleteRule\<close>, \<open>setTags\<close>,
  \<open>persistCurrent\<close> and \<open>saveAfterPush\<close> changes what the origin slot holds, whether
  their writes succeed or fail, and neither does any run of local edits; \<open>hydrate\<close>
  writes nothing at all. So after a completed pull, followed by any local edits and then
  by the write after a push, the origin slot still holds the snapshot of the pulled data.
  (The full reset \<open>clearAll\<close> empties every slot; it is neither a local mutation nor a
  push.)
\<close>

theorem origin_slot_written_only_by_pull:
  "snapshots (snd (snd (addRule env r st db))) snapshot_origin = snapshots db snapshot_origin
 \<and> snapshots (snd (snd (updateRule env rid updates st db))) snapshot_origin
     = snapshots db snapshot_origin
 \<and> snapshots (snd (snd (deleteRule env rid st db))) snapshot_origin = snapshots db snapshot_origin
 \<and> snapshots (snd (snd (setTags env t st db))) snapshot_origin = snapshots db snapshot_origin
 \<and> snapshots (snd (snd (persistCurrent env st db))) snapshot_origin = snapshots db snapshot_origin
 \<and> snd (snd (hydrate env st db)) = db
 \<and> snapshots (snd (saveAfterPush env s pushedAt newVersion db)) snapshot_origin
     = snapshots db snapshot_origin
 \<and> snapshots (snd (apply_edits es st db)) snapshot_origin = snapshots db snapshot_origin
 \<and> (pull env0 (Fulfilled pullRes) st0 db0 = (Inr (), st1, db1) \<longrightarrow>
      snapshots (snd (apply_edits es st1 db1)) snapshot_origin = Some (pulled_snapshot pullRes)
    \<and> snapshots (snd (saveAfterPush env s pushedAt newVersion (snd (apply_edits es st1 db1))))
        snapshot_origin = Some (pulled_snapshot pullRes))"
proof -
  have after_pull: "snapshots db1 snapshot_origin = Some (pulled_snapshot pullRes)"
    if "pull env0 (Fulfilled pullRes) st0 db0 = (Inr (), st1, db1)"
    using pull_success_db [OF that] by simp
  show ?thesis
    using apply_edit_origin [of env "AddRule r" st db]
      apply_edit_origin [of env "UpdateRule rid updates" st db]
      apply_edit_origin [of env "DeleteRule rid" st db]
      apply_edit_origin [of env "SetTags t" st db]
      after_pull
    by (simp add: persistCurrent_origin saveAfterPush_origin apply_edits_origin hydrate_db)
qed

text \<open>An instance: scenario B, a rule added after the pull of scenario A.\<close>

theorem origin_slot_written_only_by_pull_witness:
  "snapshots (snd (apply_edits
       [(working_env ''2026-01-02T04:00:00.000Z'', AddRule (sample_rule ''G1.B.2''))]
       pulled_state pulled_db)) snapshot_origin = Some sample_snapshot
 \<and> map_option snap_rules (snapshots (snd (apply_edits
       [(working_env ''2026-01-02T04:00:00.000Z'', AddRule (sample_rule ''G1.B.2''))]
       pulled_state pulled_db)) snapshot_current)
     = Some [sample_rule ''G1.A.1'', sample_rule ''G1.B.2'']
 \<and> rules (fst (apply_edits
       [(working_env ''2026-01-02T04:00:00.000Z'', AddRule (sample_rule ''G1.B.2''))]
       pulled_state pulled_db)) = [sample_rule ''G1.A.1'', sample_rule ''G1.B.2'']"
proof -
  have "pull (working_env ''2026-01-02T03:04:06.000Z'') (Fulfilled sample_pull)
          (initialState ''2026-01-01T00:00:00.000Z'') empty_db = (Inr (), pulled_state, pulled_db)
        \<longrightarrow> snapshots (snd (apply_edits
              [(working_env ''2026-01-02T04:00:00.000Z'', AddRule (sample_rule ''G1.B.2''))]
              pulled_state pulled_db)) snapshot_origin = Some (pulled_snapshot sample_pull)"
    using origin_slot_written_only_by_pull
      [where ?env0.0 = "working_env ''2026-01-02T03:04:06.000Z''" and pullRes = sample_pull
         and ?st0.0 = "initialState ''2026-01-01T00:00:00.000Z''" and ?db0.0 = empty_db
         and ?st1.0 = pulled_state and ?db1.0 = pulled_db
         and es = "[(working_env ''2026-01-02T04:00:00.000Z'', AddRule (sample_rule ''G1.B.2''))]"]
    by blast
  with scenario_A have "snapshots (snd (apply_edits
       [(working_env ''2026-01-02T04:00:00.000Z'', AddRule (sample_rule ''G1.B.2''))]
       pulled_state pulled_db)) snapshot_origin = Some (pulled_snapshot sample_pull)"
    by blast
  then have "snapshots (snd (apply_edits
       [(working_env ''2026-01-02T04:00:00.000Z'', AddRule (sample_rule ''G1.B.2''))]
       pulled_state pulled_db)) snapshot_origin = Some sample_snapshot"
    by (simp only: pulled_snapshot_sample)
  moreover have "apply_edits
       [(working_env ''2026-01-02T04:00:00.000Z'', AddRule (sample_rule ''G1.B.2''))]
       pulled_state pulled_db
     = (pulled_state\<lparr>rules := [sample_rule ''G1.A.1'', sample_rule ''G1.B.2'']\<rparr>,
        pulled_db\<lparr>snapshots := (snapshots pulled_db)(snapshot_current \<mapsto>
           \<lparr>snap_savedAt = ''2026-01-02T04:00:00.000Z'', snap_baseVersion = 1000,
            snap_rules = [sample_rule ''G1.A.1'', sample_rule ''G1.B.2''],
            snap_tags = sample_tags\<rparr>)\<rparr>)"
    by (simp add: addRule_def persist_detached_def persistCurrent_def saveSnapshot_def
        working_env_def pulled_state_def)
  ultimately show ?thesis by simp
qed

text \<open>
  Claim C7. When the remote pull request fails, \<open>pull()\<close> ends by throwing that failure
  again, with the loading flag cleared and the failure's message in \<open>error\<close>; \<open>rules\<close>,
  \<open>tags\<close>, \<open>baseVersion\<close> and \<open>lastPullAt\<close> are what they were before the call (only
  \<open>isLoading\<close> and \<open>error\<close> are set), and the database is untouched.
\<close>

theorem pull_failure_keeps_data:
  assumes "pullData t = Inl err"
  shows "pull env t st db =
           (Inl (ApiFailure err), st\<lparr>isLoading := False, error := Some (ne_message err)\<rparr>, db)
       \<and> rules (fst (snd (pull env t st db))) = rules st
       \<and> tags (fst (snd (pull env t st db))) = tags st
       \<and> baseVersion (fst (snd (pull env t st db))) = baseVersion st
       \<and> lastPullAt (fst (snd (pull env t st db))) = lastPullAt st
       \<and> isLoading (fst (snd (pull env t st db))) = False
       \<and> error (fst (snd (pull env t st db))) = Some (ne_message err)"
  using assms by (simp add: pull_def pull_catch_def Let_def)

text \<open>An instance: the server answers the pull with status 500 and a message.\<close>

theorem pull_failure_keeps_data_witness:
  "pull (working_env ''t'')
     (Rejected \<lparr>ax_message = Some ''Request failed with status code 500'',
                ax_response = Some \<lparr>er_status = 500,
                   er_data = Some \<lparr>ae_error = INTERNAL_ERROR, ae_message = ''Qdrant is down''\<rparr>\<rparr>\<rparr>)
     pulled_state empty_db
   = (Inl (ApiFailure
        \<lparr>ne_message = ''Qdrant is down'', ne_status = Some 500, ne_code = Some INTERNAL_ERROR,
         ne_originalError =
           \<lparr>ax_message = Some ''Request failed with status code 500'',
            ax_response = Some \<lparr>er_status = 500,
               er_data = Some \<lparr>ae_error = INTERNAL_ERROR, ae_message = ''Qdrant is down''\<rparr>\<rparr>\<rparr>\<rparr>),
      pulled_state\<lparr>isLoading := False, error := Some ''Qdrant is down''\<rparr>, empty_db)"
proof -
  have h: "pullData
     (Rejected \<lparr>ax_message = Some ''Request failed with status code 500'',
                ax_response = Some \<lparr>er_status = 500,
                   er_data = Some \<lparr>ae_error = INTERNAL_ERROR, ae_message = ''Qdrant is down''\<rparr>\<rparr>\<rparr>)
    = Inl \<lparr>ne_message = ''Qdrant is down'', ne_status = Some 500, ne_code = Some INTERNAL_ERROR,
         ne_originalError =
           \<lparr>ax_message = Some ''Request failed with status code 500'',
            ax_response = Some \<lparr>er_status = 500,
               er_data = Some \<lparr>ae_error = INTERNAL_ERROR, ae_message = ''Qdrant is down''\<rparr>\<rparr>\<rparr>\<rparr>"
    by (simp add: pullData_def client_request_def normalize_def)
  from pull_failure_keeps_data [OF h, of "working_env ''t''" pulled_state empty_db]
  show ?thesis by simp
qed

text \<open>
  Claim C8. For a \<open>ruleId\<close> that no rule of the list has, \<open>updateRule(ruleId, updates)\<close>
  leaves the list as it was, element for element (the whole state is unchanged), and the
  call returns normally.
\<close>

theorem updateRule_unknown_id_noop:
  assumes "rid \<notin> ruleId ` set (rules st)"
  shows "rules (fst (snd (updateRule env rid updates st db))) = rules st
       \<and> fst (snd (updateRule env rid updates st db)) = st
       \<and> fst (updateRule env rid updates st db) = Inr ()"
  using assms by (simp add: updateRule_def map_update_absent)

text \<open>An instance: a new title for a rule that is not in the list.\<close>

theorem updateRule_unknown_id_noop_witness:
  "fst (snd (updateRule (working_env ''t'') ''G1.Z.9'' (empty_updates\<lparr>p_title := Some ''New title''\<rparr>)
       pulled_state empty_db)) = pulled_state
   \<and> fst (updateRule (working_env ''t'') ''G1.Z.9'' (empty_updates\<lparr>p_title := Some ''New title''\<rparr>)
       pulled_state empty_db) = Inr ()"
proof -
  have h: "''G1.Z.9'' \<notin> ruleId ` set (rules pulled_state)"
    by (simp add: pulled_state_def sample_rule_def)
  from updateRule_unknown_id_noop [OF h] show ?thesis by simp
qed

text \<open>
  Claim C9 says that an update through \<open>updateRule\<close> never changes the \<open>ruleId\<close> of a
  rule. The \<open>updates\<close> argument is a \<open>Partial<Rule>\<close>, not the \<open>UpdateRuleInput\<close> that
  leaves \<open>ruleId\<close> out, and the spread copies a \<open>ruleId\<close> it carries over the rule's
  own: here the only rule of the list, \<open>G1.A.1\<close>, comes out as \<open>G1.B.2\<close>.
\<close>

theorem updateRule_reassigns_ruleId:
  "map ruleId (rules pulled_state) = [''G1.A.1'']
 \<and> map ruleId (rules (fst (snd (updateRule (working_env ''t'') ''G1.A.1''
        (empty_updates\<lparr>p_ruleId := Some ''G1.B.2''\<rparr>) pulled_state empty_db)))) = [''G1.B.2'']"
  by (simp add: updateRule_def pulled_state_def sample_rule_def spread_rule_def spread_field_def
      empty_updates_def)

text \<open>
  Claim C10. \<open>addRule(r)\<close> appends \<open>r\<close> at the end of the list whatever the list holds: the
  number of entries with \<open>r\<close>'s \<open>ruleId\<close> grows by one, so when the list already has such
  an entry it then has at least two of them and its \<open>ruleId\<close>s are no longer distinct.
\<close>

theorem addRule_appends:
  "rules (fst (snd (addRule env r st db))) = rules st @ [r]
 \<and> fst (addRule env r st db) = Inr ()
 \<and> length (filter (\<lambda>x. ruleId x = ruleId r) (rules (fst (snd (addRule env r st db)))))
     = Suc (length (filter (\<lambda>x. ruleId x = ruleId r) (rules st)))
 \<and> (ruleId r \<in> ruleId ` set (rules st) \<longrightarrow>
      2 \<le> length (filter (\<lambda>x. ruleId x = ruleId r) (rules (fst (snd (addRule env r st db)))))
      \<and> \<not> distinct (map ruleId (rules (fst (snd (addRule env r st db))))))"
proof -
  let ?st' = "fst (snd (addRule env r st db))"
  have rs: "rules ?st' = rules st @ [r]"
    by (simp add: addRule_def)
  have ok: "fst (addRule env r st db) = Inr ()"
    by (simp add: addRule_def)
  have cnt: "length (filter (\<lambda>x. ruleId x = ruleId r) (rules ?st'))
               = Suc (length (filter (\<lambda>x. ruleId x = ruleId r) (rules st)))"
    by (simp add: rs)
  have dup: "2 \<le> length (filter (\<lambda>x. ruleId x = ruleId r) (rules ?st'))
               \<and> \<not> distinct (map ruleId (rules ?st'))"
    if mem: "ruleId r \<in> ruleId ` set (rules st)"
  proof -
    from mem have "filter (\<lambda>x. ruleId x = ruleId r) (rules st) \<noteq> []"
      by (auto simp: filter_empty_conv)
    then have "1 \<le> length (filter (\<lambda>x. ruleId x = ruleId r) (rules st))"
      by (cases "filter (\<lambda>x. ruleId x = ruleId r) (rules st)") simp_all
    with cnt have "2 \<le> length (filter (\<lambda>x. ruleId x = ruleId r) (rules ?st'))"
      by linarith
    moreover from mem have "\<not> distinct (map ruleId (rules ?st'))"
      by (simp add: rs)
    ultimately show ?thesis by simp
  qed
  from rs ok cnt dup show ?thesis by blast
qed

text \<open>An instance: adding the rule of scenario A a second time.\<close>

theorem addRule_appends_witness:
  "rules (fst (snd (addRule (working_env ''t'') (sample_rule ''G1.A.1'') pulled_state empty_db)))
     = [sample_rule ''G1.A.1'', sample_rule ''G1.A.1'']
   \<and> \<not> distinct (map ruleId
         (rules (fst (snd (addRule (working_env ''t'') (sample_rule ''G1.A.1'') pulled_state
            empty_db)))))"
proof -
  have h: "ruleId (sample_rule ''G1.A.1'') \<in> ruleId ` set (rules pulled_state)"
    by (simp add: pulled_state_def)
  have r: "rules pulled_state = [sample_rule ''G1.A.1'']"
    by (simp add: pulled_state_def)
  from addRule_appends [of "working_env ''t''" "sample_rule ''G1.A.1''" pulled_state empty_db] h r
  show ?thesis by simp
qed

end
